theory Spec2Isabelle
  imports Complex_Main
begin

section \<open>OpenRouter MCP server: response normalisation, retry and fan-out\<close>

text \<open>
  A shallow embedding of \<^verbatim>\<open>src/server.ts\<close>: the function
  \<^verbatim>\<open>extractMessageContent\<close>, the retry loop \<^verbatim>\<open>retryWithBackoff\<close>,
  the two tool handlers \<^verbatim>\<open>chatWithModel\<close> and \<^verbatim>\<open>compareModels\<close> and the
  two validation schemas they are called with.

  Conventions of the embedding.
  \<^item> A JavaScript string is a \<open>string\<close>, one list element for each unit that
    \<^verbatim>\<open>.length\<close> and \<^verbatim>\<open>.slice\<close> count. The only literal of the source
    outside ASCII, the cross mark of the error line, is stored by its three UTF-8 bytes.
  \<^item> A value that the source tests against \<^verbatim>\<open>null\<close> or \<^verbatim>\<open>undefined\<close>
    is an \<open>option\<close> or has a constructor of its own.
  \<^item> A thrown value is a value of type \<open>thrown\<close>, and a computation that may throw
    returns \<open>thrown + 'a\<close> with \<open>Inl\<close> for the exception.
  \<^item> Writing to \<^verbatim>\<open>console.error\<close> is left out: nothing reads the log.
\<close>

subsection \<open>Provider messages\<close>

text \<open>
  \<^verbatim>\<open>interface OpenRouterMessage\<close>. A content part is
  \<^verbatim>\<open>{ type: string; text?: string }\<close>. The field \<^verbatim>\<open>content\<close> is declared
  \<^verbatim>\<open>string | null | Array<...>\<close>; the code also tests it against
  \<^verbatim>\<open>undefined\<close>, and its chain of tests has no final \<^verbatim>\<open>else\<close>, so a
  value of any other shape is given the constructor \<open>OtherShape\<close>. The field
  \<^verbatim>\<open>tool_calls\<close> is never read and is not part of the record.
\<close>

record part =
  part_type :: string
  part_text :: "string option"

datatype message_content =
    Null
  | Undefined
  | PlainText string
  | Parts "part list"
  | OtherShape

record OpenRouterMessage =
  role :: string
  content :: message_content
  reasoning_content :: "string option"

text \<open>The pair \<^verbatim>\<open>{ content, reasoning }\<close> that the normaliser returns.\<close>

record reply =
  reply_content :: "string option"
  reply_reasoning :: "string option"

subsection \<open>Strings of the JavaScript library\<close>

text \<open>
  \<^verbatim>\<open>Array.prototype.join\<close>: the elements separated by \<open>sep\<close>; an element
  that is \<^verbatim>\<open>undefined\<close> contributes the empty string.
\<close>

fun join :: "string \<Rightarrow> string option list \<Rightarrow> string" where
  "join sep [] = []"
| "join sep [x] = (case x of None \<Rightarrow> [] | Some s \<Rightarrow> s)"
| "join sep (x # y # ys) = (case x of None \<Rightarrow> [] | Some s \<Rightarrow> s) @ sep @ join sep (y # ys)"

text \<open>
  Truthiness of a value that is a string or \<^verbatim>\<open>undefined\<close>: the empty string
  and \<^verbatim>\<open>undefined\<close> are falsy.
\<close>

definition truthy :: "string option \<Rightarrow> bool" where
  "truthy x = (case x of None \<Rightarrow> False | Some s \<Rightarrow> s \<noteq> [])"

text \<open>\<^verbatim>\<open>x || null\<close> on a string: the empty string is falsy.\<close>

definition or_null :: "string \<Rightarrow> string option" where
  "or_null s = (if s = [] then None else Some s)"

subsection \<open>Response normaliser\<close>

text \<open>
  \<^verbatim>\<open>part.type === "text" && typeof part.text === "string"\<close>, the filter of
  \<^verbatim>\<open>extractMessageContent\<close>.
\<close>

definition is_text_part :: "part \<Rightarrow> bool" where
  "is_text_part p = (part_type p = ''text'' \<and> part_text p \<noteq> None)"

text \<open>
  \<^verbatim>\<open>extractMessageContent\<close>. The reasoning is taken when
  \<^verbatim>\<open>message.reasoning_content\<close> is truthy and a string; the field is
  declared \<^verbatim>\<open>reasoning_content?: string\<close>, so the second test adds nothing. The content follows the chain of tests of the source, in
  its order.
\<close>

definition extractMessageContent :: "OpenRouterMessage \<Rightarrow> reply" where
  "extractMessageContent message =
     (let reasoning =
            (if truthy (reasoning_content message) then reasoning_content message else None);
          content' =
            (case content message of
               Null \<Rightarrow> None
             | Undefined \<Rightarrow> None
             | PlainText s \<Rightarrow> Some s
             | Parts ps \<Rightarrow> or_null (join [] (map part_text (filter is_text_part ps)))
             | OtherShape \<Rightarrow> None)
      in \<lparr>reply_content = content', reply_reasoning = reasoning\<rparr>)"

subsection \<open>What the specification says of a sequence of parts\<close>

text \<open>
  The payloads of the parts that are tagged \<open>text\<close> and carry a payload, in order:
  the specification's reading of rule 4 of the normaliser, written by recursion on
  the parts and compared with the source's filter, map and join below.
\<close>

fun text_payloads :: "part list \<Rightarrow> string list" where
  "text_payloads [] = []"
| "text_payloads (p # ps) =
     (case part_text p of
        Some t \<Rightarrow> if part_type p = ''text'' then t # text_payloads ps else text_payloads ps
      | None \<Rightarrow> text_payloads ps)"

subsection \<open>Thrown values\<close>

text \<open>
  What a \<^verbatim>\<open>catch\<close> clause of the source reads from the value it catches:
  whether it is an instance of \<^verbatim>\<open>Error\<close>, its \<^verbatim>\<open>message\<close>, and
  \<^verbatim>\<open>error.response?.status\<close>, which is \<open>None\<close> when the value carries no
  HTTP response (a network failure, for instance).
\<close>

record thrown =
  is_Error :: bool
  error_message :: string
  response_status :: "int option"

text \<open>\<^verbatim>\<open>new Error(msg)\<close>.\<close>

definition Error :: "string \<Rightarrow> thrown" where
  "Error msg = \<lparr>is_Error = True, error_message = msg, response_status = None\<rparr>"

text \<open>
  The \<^verbatim>\<open>TypeError\<close> of the runtime for reading property \<open>prop\<close> of
  \<^verbatim>\<open>undefined\<close>, with the message text of Node.js.
\<close>

definition TypeError_reading :: "string \<Rightarrow> thrown" where
  "TypeError_reading prop =
     Error (''Cannot read properties of undefined (reading '' @ [CHR 0x27] @ prop @ [CHR 0x27] @ '')'')"

text \<open>\<^verbatim>\<open>error instanceof Error ? error.message : "Unknown error"\<close>.\<close>

definition error_text :: "thrown \<Rightarrow> string" where
  "error_text e = (if is_Error e then error_message e else ''Unknown error'')"

subsection \<open>Resilient invoker\<close>

text \<open>
  The operation passed to \<^verbatim>\<open>retryWithBackoff\<close> is a remote call: calling it
  twice may give two different outcomes. It is a function of the state \<open>'w\<close> of the
  world it acts on, returning its outcome and the next state.
\<close>

type_synonym ('a, 'w) operation = "'w \<Rightarrow> (thrown + 'a) \<times> 'w"

text \<open>
  What one invocation did: its outcome, the number of times it called the operation,
  the delays it slept (in milliseconds, in order) and the state it left the world in.
\<close>

record ('a, 'w) invocation =
  outcome :: "thrown + 'a"
  calls :: nat
  sleeps :: "real list"
  world :: 'w

text \<open>
  \<^verbatim>\<open>error.response?.status === 429 || error.response?.status === 402\<close>.
\<close>

definition isRetryableError :: "thrown \<Rightarrow> bool" where
  "isRetryableError e = (response_status e = Some 429 \<or> response_status e = Some 402)"

text \<open>
  The \<^verbatim>\<open>for\<close> loop of \<^verbatim>\<open>retryWithBackoff\<close>, from the iteration
  \<open>attempt\<close> on; \<open>n\<close> and \<open>ds\<close> are the calls made and the delays slept so far.
  \<open>random k\<close> is the value \<^verbatim>\<open>Math.random()\<close> returns in iteration \<open>k\<close>.
  \<open>maxRetries\<close> is an integer, which may be negative: the loop then runs no
  iteration and the \<^verbatim>\<open>throw\<close> after it is reached. Delays are exact reals,
  not floating-point numbers.
\<close>

function retry_loop ::
  "('a, 'w) operation \<Rightarrow> int \<Rightarrow> real \<Rightarrow> (nat \<Rightarrow> real) \<Rightarrow> nat \<Rightarrow> nat \<Rightarrow> real list \<Rightarrow> 'w
     \<Rightarrow> ('a, 'w) invocation" where
  "retry_loop operation maxRetries baseDelay random attempt n ds w =
     (if int attempt \<le> maxRetries then
        (case operation w of
           (Inr v, w') \<Rightarrow> \<lparr>outcome = Inr v, calls = Suc n, sleeps = ds, world = w'\<rparr>
         | (Inl e, w') \<Rightarrow>
             if isRetryableError e \<and> int attempt < maxRetries
             then retry_loop operation maxRetries baseDelay random (Suc attempt) (Suc n)
                    (ds @ [baseDelay * 2 ^ attempt + random attempt * 1000]) w'
             else \<lparr>outcome = Inl e, calls = Suc n, sleeps = ds, world = w'\<rparr>)
      else \<lparr>outcome = Inl (Error ''Max retries exceeded''), calls = n, sleeps = ds, world = w\<rparr>)"
  by pat_completeness auto
termination
  by (relation "measure (\<lambda>(operation, maxRetries, baseDelay, random, attempt, n, ds, w).
        nat (maxRetries + 1 - int attempt))") auto

declare retry_loop.simps [simp del]

definition retryWithBackoff ::
  "('a, 'w) operation \<Rightarrow> int \<Rightarrow> real \<Rightarrow> (nat \<Rightarrow> real) \<Rightarrow> 'w \<Rightarrow> ('a, 'w) invocation" where
  "retryWithBackoff operation maxRetries baseDelay random w =
     retry_loop operation maxRetries baseDelay random 0 0 [] w"

text \<open>
  For stating what an invocation did: the state of the world after \<open>k\<close> calls of the
  operation from state \<open>w\<close>, the outcome of the next call there, and the delay slept
  after a retried failure of iteration \<open>attempt\<close>.
\<close>

primrec world_after :: "('a, 'w) operation \<Rightarrow> nat \<Rightarrow> 'w \<Rightarrow> 'w" where
  "world_after operation 0 w = w"
| "world_after operation (Suc k) w = world_after operation k (snd (operation w))"

definition attempt_outcome :: "('a, 'w) operation \<Rightarrow> nat \<Rightarrow> 'w \<Rightarrow> thrown + 'a" where
  "attempt_outcome operation k w = fst (operation (world_after operation k w))"

definition backoff_delay :: "real \<Rightarrow> (nat \<Rightarrow> real) \<Rightarrow> nat \<Rightarrow> real" where
  "backoff_delay baseDelay random attempt = baseDelay * 2 ^ attempt + random attempt * 1000"

subsection \<open>Numbers and text of the reports\<close>

text \<open>
  A non-negative integer inside a template literal: its decimal digits. (JavaScript
  prints an integer below \<open>10\<^sup>2\<^sup>1\<close> this way.)
\<close>

definition digit :: "nat \<Rightarrow> char" where
  "digit d = ''0123456789'' ! d"

fun show_nat :: "nat \<Rightarrow> string" where
  "show_nat n = (if n < 10 then [digit n] else show_nat (n div 10) @ [digit (n mod 10)])"

declare show_nat.simps [simp del]

text \<open>The line feed \<^verbatim>\<open>\n\<close>.\<close>

definition nl :: string where
  "nl = [CHR 0x0A]"

text \<open>The cross mark U+274C of the error line, as UTF-8.\<close>

definition cross_mark :: string where
  "cross_mark = [CHR 0xE2, CHR 0x9D, CHR 0x8C]"

text \<open>\<^verbatim>\<open>x ?? d\<close>: \<open>d\<close> when \<open>x\<close> is null or undefined, else \<open>x\<close>.\<close>

definition nullish :: "string option \<Rightarrow> string \<Rightarrow> string" where
  "nullish x d = (case x of None \<Rightarrow> d | Some s \<Rightarrow> s)"

text \<open>
  \<^verbatim>\<open>Array.prototype.map\<close> with a callback that may throw: the first exception
  leaves the loop.
\<close>

fun map_throwing :: "('a \<Rightarrow> thrown + 'b) \<Rightarrow> 'a list \<Rightarrow> thrown + 'b list" where
  "map_throwing f [] = Inr []"
| "map_throwing f (x # xs) =
     (case f x of
        Inl e \<Rightarrow> Inl e
      | Inr y \<Rightarrow> (case map_throwing f xs of Inl e \<Rightarrow> Inl e | Inr ys \<Rightarrow> Inr (y # ys)))"

subsection \<open>The remote chat completion\<close>

text \<open>
  A turn of a conversation, \<^verbatim>\<open>{role: string; content: string}\<close>, and the body
  that \<^verbatim>\<open>axios.post\<close> sends to \<^verbatim>\<open>/chat/completions\<close>. The comparison
  sends no temperature.
\<close>

record ChatTurn =
  turn_role :: string
  turn_content :: string

record chat_body =
  body_model :: string
  body_messages :: "ChatTurn list"
  body_max_tokens :: real
  body_temperature :: "real option"

text \<open>
  What the handlers read of \<^verbatim>\<open>response.data\<close>: the messages of the choices
  (a choice is identified with its \<^verbatim>\<open>message\<close>) and the usage counters, which
  may be missing.
\<close>

record UsageStats =
  prompt_tokens :: nat
  completion_tokens :: nat
  total_tokens :: nat

record completion =
  choices :: "OpenRouterMessage list"
  usage :: "UsageStats option"

text \<open>
  \<^verbatim>\<open>response.data.choices[0].message\<close>: reading \<^verbatim>\<open>message\<close> of the
  first choice throws when there is none.
\<close>

definition first_message :: "completion \<Rightarrow> thrown + OpenRouterMessage" where
  "first_message response =
     (case choices response of
        [] \<Rightarrow> Inl (TypeError_reading ''message'')
      | m # _ \<Rightarrow> Inr m)"

subsection \<open>Single-model chat\<close>

text \<open>The parameters of \<^verbatim>\<open>chatWithModel\<close>, as \<^verbatim>\<open>ChatRequestSchema\<close> types them.\<close>

record ChatRequest =
  chat_model :: string
  chat_message :: string
  chat_max_tokens :: real
  chat_temperature :: real
  chat_system_prompt :: "string option"

text \<open>
  The array \<^verbatim>\<open>messages\<close> of \<^verbatim>\<open>chatWithModel\<close>: the system turn is
  pushed when \<^verbatim>\<open>system_prompt\<close> is truthy, then the user turn.
\<close>

definition chatWithModel_messages :: "ChatRequest \<Rightarrow> ChatTurn list" where
  "chatWithModel_messages params =
     (if truthy (chat_system_prompt params)
      then [\<lparr>turn_role = ''system'', turn_content = the (chat_system_prompt params)\<rparr>]
      else [])
     @ [\<lparr>turn_role = ''user'', turn_content = chat_message params\<rparr>]"

definition chatWithModel_body :: "ChatRequest \<Rightarrow> chat_body" where
  "chatWithModel_body params =
     \<lparr>body_model = chat_model params,
      body_messages = chatWithModel_messages params,
      body_max_tokens = chat_max_tokens params,
      body_temperature = Some (chat_temperature params)\<rparr>"

text \<open>The report of \<^verbatim>\<open>chatWithModel\<close> for a completion that arrived.\<close>

definition chatWithModel_report :: "string \<Rightarrow> completion \<Rightarrow> thrown + string" where
  "chatWithModel_report model_id response =
     (case first_message response of
        Inl e \<Rightarrow> Inl e
      | Inr assistantMessage \<Rightarrow>
          let extracted = extractMessageContent assistantMessage;
              responseText = ''**Model:** '' @ model_id @ nl;
              responseText =
                (if truthy (reply_reasoning extracted)
                 then responseText @ ''**Reasoning:**'' @ nl @ the (reply_reasoning extracted) @ nl @ nl
                 else responseText);
              responseText = responseText @ ''**Response:** ''
                 @ nullish (reply_content extracted) ''(no content returned)'' @ nl @ nl
          in (case usage response of
                None \<Rightarrow> Inl (TypeError_reading ''prompt_tokens'')
              | Some u \<Rightarrow>
                  Inr (responseText @ ''**Usage:**'' @ nl
                       @ ''- Prompt tokens: '' @ show_nat (prompt_tokens u) @ nl
                       @ ''- Completion tokens: '' @ show_nat (completion_tokens u) @ nl
                       @ ''- Total tokens: '' @ show_nat (total_tokens u))))"

text \<open>
  \<^verbatim>\<open>chatWithModel\<close>, with the default arguments 3 and 1000 of the invoker.
  \<open>post body\<close> is the remote call \<^verbatim>\<open>axios.post\<close> with that body. The result
  is the text of the single content item returned, or the exception that leaves the
  handler.
\<close>

definition chatWithModel ::
  "(chat_body \<Rightarrow> (completion, 'w) operation) \<Rightarrow> (nat \<Rightarrow> real) \<Rightarrow> 'w \<Rightarrow> ChatRequest
     \<Rightarrow> thrown + string" where
  "chatWithModel post random w params =
     (case outcome (retryWithBackoff (post (chatWithModel_body params)) 3 1000 random w) of
        Inl e \<Rightarrow> Inl e
      | Inr response \<Rightarrow> chatWithModel_report (chat_model params) response)"

subsection \<open>Multi-model comparison\<close>

record CompareModels =
  cmp_models :: "string list"
  cmp_message :: string
  cmp_max_tokens :: real

text \<open>
  An entry of \<^verbatim>\<open>results\<close>: the object with \<^verbatim>\<open>success: true\<close> or the one with
  \<^verbatim>\<open>success: false\<close>.
\<close>

datatype ComparisonResult =
    Succeeded (result_model: string) (result_response: "string option")
              (result_reasoning: "string option") (result_usage: "UsageStats option")
  | Failed (result_model: string) (result_error: string)

definition compareModels_body :: "CompareModels \<Rightarrow> string \<Rightarrow> chat_body" where
  "compareModels_body params model_id =
     \<lparr>body_model = model_id,
      body_messages = [\<lparr>turn_role = ''user'', turn_content = cmp_message params\<rparr>],
      body_max_tokens = cmp_max_tokens params,
      body_temperature = None\<rparr>"

text \<open>
  The calls of the comparison run concurrently. The task at position \<open>i\<close> of the list
  runs the invoker against its own view \<open>worlds i\<close> of the remote service, with its own
  draws \<open>random i\<close>: how the tasks interleave is taken not to change what the service
  answers to each of them.
\<close>

definition compareModels_invocation ::
  "(chat_body \<Rightarrow> (completion, 'w) operation) \<Rightarrow> (nat \<Rightarrow> nat \<Rightarrow> real) \<Rightarrow> (nat \<Rightarrow> 'w)
     \<Rightarrow> CompareModels \<Rightarrow> nat \<Rightarrow> string \<Rightarrow> (completion, 'w) invocation" where
  "compareModels_invocation post random worlds params i model_id =
     retryWithBackoff (post (compareModels_body params model_id)) 3 1000 (random i) (worlds i)"

text \<open>
  The body of the \<^verbatim>\<open>async\<close> callback after the invoker has settled: the
  \<^verbatim>\<open>try\<close> block on a completion, the \<^verbatim>\<open>catch\<close> block on an exception of
  the invoker or of the \<^verbatim>\<open>try\<close> block itself.
\<close>

definition compareModels_entry :: "string \<Rightarrow> thrown + completion \<Rightarrow> ComparisonResult" where
  "compareModels_entry model_id settled =
     (case settled of
        Inl e \<Rightarrow> Failed model_id (error_text e)
      | Inr response \<Rightarrow>
          (case first_message response of
             Inl e \<Rightarrow> Failed model_id (error_text e)
           | Inr msg \<Rightarrow>
               let extracted = extractMessageContent msg
               in Succeeded model_id (reply_content extracted) (reply_reasoning extracted)
                    (usage response)))"

text \<open>
  \<^verbatim>\<open>Promise.all\<close> on promises that all fulfil. \<open>order\<close> lists the positions of
  the promises in the order in which they settle; each writes its value to the slot of
  its position. The promise returned fulfils, with the values by position, once every
  slot is written; \<open>None\<close> says that it stays pending.
\<close>

definition settle :: "'a list \<Rightarrow> nat \<Rightarrow> 'a option list \<Rightarrow> 'a option list" where
  "settle values i slots = (if i < length values then slots[i := Some (values ! i)] else slots)"

definition Promise_all :: "nat list \<Rightarrow> 'a list \<Rightarrow> 'a list option" where
  "Promise_all order values = those (fold (settle values) order (replicate (length values) None))"

text \<open>The array \<^verbatim>\<open>results\<close> of \<^verbatim>\<open>compareModels\<close>.\<close>

definition compareModels_results ::
  "nat list \<Rightarrow> (chat_body \<Rightarrow> (completion, 'w) operation) \<Rightarrow> (nat \<Rightarrow> nat \<Rightarrow> real) \<Rightarrow> (nat \<Rightarrow> 'w)
     \<Rightarrow> CompareModels \<Rightarrow> ComparisonResult list option" where
  "compareModels_results order post random worlds params =
     Promise_all order
       (map (\<lambda>(i, model_id).
               compareModels_entry model_id
                 (outcome (compareModels_invocation post random worlds params i model_id)))
            (enumerate 0 (cmp_models params)))"

text \<open>The number of remote calls that the tasks of a comparison make together.\<close>

definition compareModels_calls ::
  "(chat_body \<Rightarrow> (completion, 'w) operation) \<Rightarrow> (nat \<Rightarrow> nat \<Rightarrow> real) \<Rightarrow> (nat \<Rightarrow> 'w)
     \<Rightarrow> CompareModels \<Rightarrow> nat" where
  "compareModels_calls post random worlds params =
     sum_list (map (\<lambda>(i, model_id).
                      calls (compareModels_invocation post random worlds params i model_id))
                   (enumerate 0 (cmp_models params)))"

text \<open>
  \<^verbatim>\<open>result.reasoning.slice(0, 200)\<close> followed by
  \<^verbatim>\<open>result.reasoning.length > 200 ? "..." : ""\<close>.
\<close>

definition reasoning_preview :: "string \<Rightarrow> string" where
  "reasoning_preview r = take 200 r @ (if length r > 200 then ''...'' else [])"

text \<open>
  The callback of \<^verbatim>\<open>results.map\<close>. Reading \<^verbatim>\<open>total_tokens\<close> throws when
  the completion carried no usage.
\<close>

definition formatResult :: "ComparisonResult \<Rightarrow> thrown + string" where
  "formatResult result =
     (case result of
        Succeeded model_id response reasoning usage' \<Rightarrow>
          let text = ''**'' @ model_id @ '':**'' @ nl;
              text = (if truthy reasoning
                      then text @ ''*Reasoning:* '' @ reasoning_preview (the reasoning) @ nl @ nl
                      else text)
          in (case usage' of
                None \<Rightarrow> Inl (TypeError_reading ''total_tokens'')
              | Some u \<Rightarrow>
                  Inr (text @ nullish response ''(no content)'' @ nl
                       @ ''*Tokens: '' @ show_nat (total_tokens u) @ ''*''))
      | Failed model_id err \<Rightarrow>
          Inr (''**'' @ model_id @ '':** '' @ cross_mark @ '' Error - '' @ err))"

definition separator :: string where
  "separator = nl @ nl @ ''---'' @ nl @ nl"

text \<open>
  \<^verbatim>\<open>compareModels\<close>: \<open>None\<close> while \<^verbatim>\<open>Promise.all\<close> is pending, else the
  text of the single content item returned, or the exception that leaves the handler.
\<close>

definition compareModels ::
  "nat list \<Rightarrow> (chat_body \<Rightarrow> (completion, 'w) operation) \<Rightarrow> (nat \<Rightarrow> nat \<Rightarrow> real) \<Rightarrow> (nat \<Rightarrow> 'w)
     \<Rightarrow> CompareModels \<Rightarrow> (thrown + string) option" where
  "compareModels order post random worlds params =
     (case compareModels_results order post random worlds params of
        None \<Rightarrow> None
      | Some results \<Rightarrow>
          Some (case map_throwing formatResult results of
                  Inl e \<Rightarrow> Inl e
                | Inr blocks \<Rightarrow>
                    Inr (''Comparison of '' @ show_nat (length (cmp_models params))
                         @ '' models:'' @ nl @ nl @ join separator (map Some blocks))))"

subsection \<open>Validation schemas\<close>

text \<open>
  The arguments of a tool call are a JSON value. Of the validation library only what the
  two schemas use is written out: \<^verbatim>\<open>z.string()\<close>, \<^verbatim>\<open>z.array(z.string())\<close>,
  \<^verbatim>\<open>z.number().optional().default(d)\<close>, \<^verbatim>\<open>z.string().optional()\<close> and
  \<^verbatim>\<open>z.object\<close>, which ignores the keys it does not know. The keys of an object are
  distinct; a key that is missing reads as \<^verbatim>\<open>undefined\<close>, here \<open>None\<close>. The list of issues of a failed
  validation is not kept.
\<close>

datatype json =
    JNull
  | JBool bool
  | JNumber real
  | JString string
  | JArray "json list"
  | JObject "(string \<times> json) list"

datatype ZodError = ZodError

definition z_string :: "json option \<Rightarrow> ZodError + string" where
  "z_string v = (case v of Some (JString s) \<Rightarrow> Inr s | _ \<Rightarrow> Inl ZodError)"

definition z_string_optional :: "json option \<Rightarrow> ZodError + string option" where
  "z_string_optional v =
     (case v of None \<Rightarrow> Inr None | Some (JString s) \<Rightarrow> Inr (Some s) | _ \<Rightarrow> Inl ZodError)"

definition z_number_default :: "real \<Rightarrow> json option \<Rightarrow> ZodError + real" where
  "z_number_default d v =
     (case v of None \<Rightarrow> Inr d | Some (JNumber x) \<Rightarrow> Inr x | _ \<Rightarrow> Inl ZodError)"

fun z_strings :: "json list \<Rightarrow> ZodError + string list" where
  "z_strings [] = Inr []"
| "z_strings (x # xs) =
     (case (x, z_strings xs) of
        (JString s, Inr ss) \<Rightarrow> Inr (s # ss)
      | _ \<Rightarrow> Inl ZodError)"

definition z_array_string :: "json option \<Rightarrow> ZodError + string list" where
  "z_array_string v = (case v of Some (JArray xs) \<Rightarrow> z_strings xs | _ \<Rightarrow> Inl ZodError)"

text \<open>\<^verbatim>\<open>ChatRequestSchema.parse\<close>.\<close>

definition ChatRequestSchema :: "json \<Rightarrow> ZodError + ChatRequest" where
  "ChatRequestSchema args =
     (case args of
        JObject props \<Rightarrow>
          (case (z_string (map_of props ''model''),
                 z_string (map_of props ''message''),
                 z_number_default 1000 (map_of props ''max_tokens''),
                 z_number_default (7 / 10) (map_of props ''temperature''),
                 z_string_optional (map_of props ''system_prompt'')) of
             (Inr m, Inr msg, Inr mt, Inr t, Inr sp) \<Rightarrow>
               Inr \<lparr>chat_model = m, chat_message = msg, chat_max_tokens = mt,
                    chat_temperature = t, chat_system_prompt = sp\<rparr>
           | _ \<Rightarrow> Inl ZodError)
      | _ \<Rightarrow> Inl ZodError)"

text \<open>\<^verbatim>\<open>CompareModelsSchema.parse\<close>.\<close>

definition CompareModelsSchema :: "json \<Rightarrow> ZodError + CompareModels" where
  "CompareModelsSchema args =
     (case args of
        JObject props \<Rightarrow>
          (case (z_array_string (map_of props ''models''),
                 z_string (map_of props ''message''),
                 z_number_default 500 (map_of props ''max_tokens'')) of
             (Inr ms, Inr msg, Inr mt) \<Rightarrow>
               Inr \<lparr>cmp_models = ms, cmp_message = msg, cmp_max_tokens = mt\<rparr>
           | _ \<Rightarrow> Inl ZodError)
      | _ \<Rightarrow> Inl ZodError)"

section \<open>Properties of the normaliser\<close>

lemma join_empty_sep: "join [] xs = concat (map (\<lambda>x. case x of None \<Rightarrow> [] | Some s \<Rightarrow> s) xs)"
  by (induction "[] :: string" xs rule: join.induct) simp_all

lemma payloads_of_filter:
  "map (\<lambda>x. case x of None \<Rightarrow> [] | Some s \<Rightarrow> s) (map part_text (filter is_text_part ps))
     = text_payloads ps"
  by (induction ps) (auto simp: is_text_part_def split: option.splits)

lemma join_text_parts: "join [] (map part_text (filter is_text_part ps)) = concat (text_payloads ps)"
  by (simp only: join_empty_sep payloads_of_filter)

text \<open>
  Claim C4. When the content of a provider message is a sequence of parts, the content of
  the reply is the concatenation, in order and with no separator, of the payloads of the
  parts tagged \<open>text\<close> that carry a payload, and it is absent (not the empty string)
  when that concatenation is empty; it is absent in particular when no part is tagged
  \<open>text\<close>, and the parts text A, other, text B give the content AB.
\<close>

theorem extract_parts_concat:
  "(content m = Parts ps \<longrightarrow>
      reply_content (extractMessageContent m)
        = (if concat (text_payloads ps) = [] then None else Some (concat (text_payloads ps))))
   \<and> (content m = Parts ps \<and> (\<forall>p \<in> set ps. part_type p \<noteq> ''text'') \<longrightarrow>
      reply_content (extractMessageContent m) = None)
   \<and> reply_content (extractMessageContent
        (m\<lparr>content := Parts [\<lparr>part_type = ''text'', part_text = Some ''A''\<rparr>,
                               \<lparr>part_type = ''image_url'', part_text = None\<rparr>,
                               \<lparr>part_type = ''text'', part_text = Some ''B''\<rparr>]\<rparr>)) = Some ''AB''"
proof (intro conjI impI)
  assume c: "content m = Parts ps"
  show "reply_content (extractMessageContent m)
        = (if concat (text_payloads ps) = [] then None else Some (concat (text_payloads ps)))"
    using c by (simp add: extractMessageContent_def Let_def or_null_def join_text_parts)
next
  assume a: "content m = Parts ps \<and> (\<forall>p \<in> set ps. part_type p \<noteq> ''text'')"
  then have "filter is_text_part ps = []"
    by (auto simp: is_text_part_def filter_empty_conv)
  with a show "reply_content (extractMessageContent m) = None"
    by (simp add: extractMessageContent_def Let_def or_null_def)
next
  show "reply_content (extractMessageContent
        (m\<lparr>content := Parts [\<lparr>part_type = ''text'', part_text = Some ''A''\<rparr>,
                               \<lparr>part_type = ''image_url'', part_text = None\<rparr>,
                               \<lparr>part_type = ''text'', part_text = Some ''B''\<rparr>]\<rparr>)) = Some ''AB''"
    by (simp add: extractMessageContent_def Let_def or_null_def is_text_part_def)
qed

theorem extract_parts_concat_witness:
  "reply_content (extractMessageContent
      \<lparr>role = ''assistant'',
       content = Parts [\<lparr>part_type = ''text'', part_text = Some ''A''\<rparr>,
                        \<lparr>part_type = ''text'', part_text = None\<rparr>,
                        \<lparr>part_type = ''tool'', part_text = Some ''x''\<rparr>,
                        \<lparr>part_type = ''text'', part_text = Some ''B''\<rparr>],
       reasoning_content = None\<rparr>) = Some ''AB''
   \<and> reply_content (extractMessageContent
      \<lparr>role = ''assistant'',
       content = Parts [\<lparr>part_type = ''tool'', part_text = Some ''x''\<rparr>],
       reasoning_content = None\<rparr>) = None"
proof -
  let ?ps = "[\<lparr>part_type = ''text'', part_text = Some ''A''\<rparr>,
              \<lparr>part_type = ''text'', part_text = None\<rparr>,
              \<lparr>part_type = ''tool'', part_text = Some ''x''\<rparr>,
              \<lparr>part_type = ''text'', part_text = Some ''B''\<rparr>]"
  let ?qs = "[\<lparr>part_type = ''tool'', part_text = Some ''x''\<rparr>]"
  have 1: "reply_content (extractMessageContent
      \<lparr>role = ''assistant'', content = Parts ?ps, reasoning_content = None\<rparr>) = Some ''AB''"
    using extract_parts_concat
      [of "\<lparr>role = ''assistant'', content = Parts ?ps, reasoning_content = None\<rparr>" ?ps]
    by simp
  have 2: "reply_content (extractMessageContent
      \<lparr>role = ''assistant'', content = Parts ?qs, reasoning_content = None\<rparr>) = None"
    using extract_parts_concat
      [of "\<lparr>role = ''assistant'', content = Parts ?qs, reasoning_content = None\<rparr>" ?qs]
    by simp
  from 1 2 show ?thesis by simp
qed

text \<open>
  Claim C8. When the content field of a provider message is absent or null the content
  of the reply is absent, and when it is plain text the content of the reply is that
  text, unchanged (the empty text included).
\<close>

theorem extract_null_and_plain:
  "(content m = Null \<or> content m = Undefined \<longrightarrow>
      reply_content (extractMessageContent m) = None)
   \<and> (content m = PlainText s \<longrightarrow> reply_content (extractMessageContent m) = Some s)"
  by (auto simp: extractMessageContent_def Let_def)

theorem extract_null_and_plain_witness:
  "reply_content (extractMessageContent
      \<lparr>role = ''assistant'', content = Null, reasoning_content = None\<rparr>) = None
   \<and> reply_content (extractMessageContent
      \<lparr>role = ''assistant'', content = Undefined, reasoning_content = Some ''r''\<rparr>) = None
   \<and> reply_content (extractMessageContent
      \<lparr>role = ''assistant'', content = PlainText ''hello'', reasoning_content = None\<rparr>)
       = Some ''hello''
   \<and> reply_content (extractMessageContent
      \<lparr>role = ''assistant'', content = PlainText [], reasoning_content = None\<rparr>) = Some []"
  using
    extract_null_and_plain
      [of "\<lparr>role = ''assistant'', content = Null, reasoning_content = None\<rparr>" "[]"]
    extract_null_and_plain
      [of "\<lparr>role = ''assistant'', content = Undefined, reasoning_content = Some ''r''\<rparr>" "[]"]
    extract_null_and_plain
      [of "\<lparr>role = ''assistant'', content = PlainText ''hello'', reasoning_content = None\<rparr>"
          "''hello''"]
    extract_null_and_plain
      [of "\<lparr>role = ''assistant'', content = PlainText [], reasoning_content = None\<rparr>" "[]"]
  by simp

section \<open>Properties of the resilient invoker\<close>

text \<open>One iteration of the loop, case by case.\<close>

lemma retry_loop_success:
  "int attempt \<le> maxRetries \<Longrightarrow> operation w = (Inr v, w') \<Longrightarrow>
   retry_loop operation maxRetries baseDelay random attempt n ds w
     = \<lparr>outcome = Inr v, calls = Suc n, sleeps = ds, world = w'\<rparr>"
  by (simp add: retry_loop.simps)

lemma retry_loop_fatal:
  "int attempt \<le> maxRetries \<Longrightarrow> operation w = (Inl e, w') \<Longrightarrow> \<not> isRetryableError e \<Longrightarrow>
   retry_loop operation maxRetries baseDelay random attempt n ds w
     = \<lparr>outcome = Inl e, calls = Suc n, sleeps = ds, world = w'\<rparr>"
  by (simp add: retry_loop.simps)

lemma retry_loop_last:
  "int attempt = maxRetries \<Longrightarrow> operation w = (Inl e, w') \<Longrightarrow>
   retry_loop operation maxRetries baseDelay random attempt n ds w
     = \<lparr>outcome = Inl e, calls = Suc n, sleeps = ds, world = w'\<rparr>"
  by (simp add: retry_loop.simps)

lemma retry_loop_retry:
  "int attempt < maxRetries \<Longrightarrow> operation w = (Inl e, w') \<Longrightarrow> isRetryableError e \<Longrightarrow>
   retry_loop operation maxRetries baseDelay random attempt n ds w
     = retry_loop operation maxRetries baseDelay random (Suc attempt) (Suc n)
         (ds @ [backoff_delay baseDelay random attempt]) w'"
  by (simp add: retry_loop.simps [of _ _ _ _ attempt] backoff_delay_def)

lemma retry_loop_past:
  "\<not> int attempt \<le> maxRetries \<Longrightarrow>
   retry_loop operation maxRetries baseDelay random attempt n ds w
     = \<lparr>outcome = Inl (Error ''Max retries exceeded''), calls = n, sleeps = ds, world = w\<rparr>"
  by (simp add: retry_loop.simps)

text \<open>
  When the next \<open>d\<close> calls all fail with a retryable error and \<open>d\<close> further
  iterations are allowed, the loop goes through them, sleeping once after each.
\<close>

lemma retry_loop_skip:
  "int (attempt + d) \<le> maxRetries \<Longrightarrow>
   \<forall>j < d. \<exists>e. attempt_outcome operation j w = Inl e \<and> isRetryableError e \<Longrightarrow>
   retry_loop operation maxRetries baseDelay random attempt n ds w
     = retry_loop operation maxRetries baseDelay random (attempt + d) (n + d)
         (ds @ map (backoff_delay baseDelay random) [attempt ..< attempt + d])
         (world_after operation d w)"
proof (induction d arbitrary: attempt n ds w)
  case 0
  then show ?case by simp
next
  case (Suc d)
  from Suc.prems(2) obtain e where e: "attempt_outcome operation 0 w = Inl e" "isRetryableError e"
    by blast
  then obtain w' where w': "operation w = (Inl e, w')"
    by (cases "operation w") (simp add: attempt_outcome_def)
  have lt: "int attempt < maxRetries" using Suc.prems(1) by simp
  have later: "\<forall>j < d. \<exists>e. attempt_outcome operation j w' = Inl e \<and> isRetryableError e"
  proof (intro allI impI)
    fix j assume "j < d"
    then have "Suc j < Suc d" by simp
    with Suc.prems(2) obtain e' where
      "attempt_outcome operation (Suc j) w = Inl e'" "isRetryableError e'" by blast
    then show "\<exists>e. attempt_outcome operation j w' = Inl e \<and> isRetryableError e"
      using w' by (auto simp: attempt_outcome_def)
  qed
  have bound: "int (Suc attempt + d) \<le> maxRetries" using Suc.prems(1) by simp
  have "retry_loop operation maxRetries baseDelay random attempt n ds w
      = retry_loop operation maxRetries baseDelay random (Suc attempt) (Suc n)
         (ds @ [backoff_delay baseDelay random attempt]) w'"
    using lt w' e(2) by (rule retry_loop_retry)
  also have "\<dots> = retry_loop operation maxRetries baseDelay random (Suc attempt + d) (Suc n + d)
         ((ds @ [backoff_delay baseDelay random attempt])
            @ map (backoff_delay baseDelay random) [Suc attempt ..< Suc attempt + d])
         (world_after operation d w')"
    using bound later by (rule Suc.IH)
  also have "\<dots> = retry_loop operation maxRetries baseDelay random (attempt + Suc d) (n + Suc d)
         (ds @ map (backoff_delay baseDelay random) [attempt ..< attempt + Suc d])
         (world_after operation (Suc d) w)"
    using w' by (simp add: upt_rec [of attempt])
  finally show ?case .
qed

text \<open>Every call that is followed by another call failed with a retryable error.\<close>

lemma retry_loop_only_transient:
  "n + Suc k < calls (retry_loop operation maxRetries baseDelay random attempt n ds w) \<Longrightarrow>
   \<exists>e. attempt_outcome operation k w = Inl e \<and> isRetryableError e"
proof (induction operation maxRetries baseDelay random attempt n ds w arbitrary: k
       rule: retry_loop.induct)
  case (1 operation maxRetries baseDelay random attempt n ds w)
  show ?case
  proof (cases "int attempt \<le> maxRetries")
    case False
    with "1.prems" show ?thesis by (simp add: retry_loop_past)
  next
    case True
    obtain x w' where op: "operation w = (x, w')" by (cases "operation w")
    show ?thesis
    proof (cases x)
      case (Inr v)
      with "1.prems" True op show ?thesis by (simp add: retry_loop_success)
    next
      case (Inl e)
      show ?thesis
      proof (cases "isRetryableError e \<and> int attempt < maxRetries")
        case False
        with "1.prems" True op Inl show ?thesis
          by (auto simp: retry_loop_fatal retry_loop_last)
      next
        case retry: True
        then have step: "retry_loop operation maxRetries baseDelay random attempt n ds w
          = retry_loop operation maxRetries baseDelay random (Suc attempt) (Suc n)
              (ds @ [baseDelay * 2 ^ attempt + random attempt * 1000]) w'"
          using op Inl by (simp add: retry_loop_retry backoff_delay_def)
        show ?thesis
        proof (cases k)
          case 0
          with retry op Inl show ?thesis by (simp add: attempt_outcome_def)
        next
          case (Suc k')
          with "1.prems" step have
            "Suc n + Suc k' < calls (retry_loop operation maxRetries baseDelay random (Suc attempt)
                (Suc n) (ds @ [baseDelay * 2 ^ attempt + random attempt * 1000]) w')"
            by simp
          from "1.IH" [OF True op [symmetric] Inl retry this]
          show ?thesis using Suc op by (simp add: attempt_outcome_def)
        qed
      qed
    qed
  qed
qed


text \<open>
  With a negative \<open>maxRetries\<close> the operation is never called and the
  \<^verbatim>\<open>throw\<close> after the loop is reached.
\<close>

lemma retry_no_attempt:
  "maxRetries < 0 \<Longrightarrow>
   retryWithBackoff operation maxRetries baseDelay random w
     = \<lparr>outcome = Inl (Error ''Max retries exceeded''), calls = 0, sleeps = [], world = w\<rparr>"
  by (simp add: retryWithBackoff_def retry_loop_past)

text \<open>
  A failure that is not retryable ends the invocation at whatever attempt it occurs,
  with no sleep after it.
\<close>

lemma retry_fatal_at_any_attempt:
  assumes "int k \<le> maxRetries"
    and "\<forall>j < k. \<exists>e. attempt_outcome operation j w = Inl e \<and> isRetryableError e"
    and "operation (world_after operation k w) = (Inl e, w')"
    and "\<not> isRetryableError e"
  shows "retryWithBackoff operation maxRetries baseDelay random w
     = \<lparr>outcome = Inl e, calls = Suc k,
        sleeps = map (backoff_delay baseDelay random) [0 ..< k], world = w'\<rparr>"
proof -
  have "retryWithBackoff operation maxRetries baseDelay random w
      = retry_loop operation maxRetries baseDelay random (0 + k) (0 + k)
          ([] @ map (backoff_delay baseDelay random) [0 ..< 0 + k]) (world_after operation k w)"
    unfolding retryWithBackoff_def using assms(1,2) by (intro retry_loop_skip) simp_all
  also have "\<dots> = \<lparr>outcome = Inl e, calls = Suc k,
        sleeps = map (backoff_delay baseDelay random) [0 ..< k], world = w'\<rparr>"
    using assms(1,3,4) by (simp add: retry_loop_fatal)
  finally show ?thesis .
qed

text \<open>
  The loop only adds to the calls made and to the delays slept so far, and an iteration
  that is allowed calls the operation.
\<close>

lemma retry_loop_calls_mono:
  "n \<le> calls (retry_loop operation maxRetries baseDelay random attempt n ds w)"
proof (induction operation maxRetries baseDelay random attempt n ds w rule: retry_loop.induct)
  case (1 operation maxRetries baseDelay random attempt n ds w)
  show ?case
  proof (cases "int attempt \<le> maxRetries")
    case False
    then show ?thesis by (simp add: retry_loop_past)
  next
    case True
    obtain x w' where op: "operation w = (x, w')" by (cases "operation w")
    show ?thesis
    proof (cases x)
      case (Inr v)
      with True op show ?thesis by (simp add: retry_loop_success)
    next
      case (Inl e)
      show ?thesis
      proof (cases "isRetryableError e \<and> int attempt < maxRetries")
        case False
        with True op Inl show ?thesis by (auto simp: retry_loop_fatal retry_loop_last)
      next
        case retry: True
        then have step: "retry_loop operation maxRetries baseDelay random attempt n ds w
          = retry_loop operation maxRetries baseDelay random (Suc attempt) (Suc n)
              (ds @ [baseDelay * 2 ^ attempt + random attempt * 1000]) w'"
          using op Inl by (simp add: retry_loop_retry backoff_delay_def)
        from "1.IH" [OF True op [symmetric] Inl retry]
        show ?thesis unfolding step by simp
      qed
    qed
  qed
qed

lemma retry_loop_calls_next:
  assumes "int attempt \<le> maxRetries"
  shows "Suc n \<le> calls (retry_loop operation maxRetries baseDelay random attempt n ds w)"
proof -
  obtain x w' where op: "operation w = (x, w')" by (cases "operation w")
  show ?thesis
  proof (cases x)
    case (Inr v)
    with assms op show ?thesis by (simp add: retry_loop_success)
  next
    case (Inl e)
    show ?thesis
    proof (cases "isRetryableError e \<and> int attempt < maxRetries")
      case False
      with assms op Inl show ?thesis by (auto simp: retry_loop_fatal retry_loop_last)
    next
      case True
      then have "retry_loop operation maxRetries baseDelay random attempt n ds w
          = retry_loop operation maxRetries baseDelay random (Suc attempt) (Suc n)
              (ds @ [backoff_delay baseDelay random attempt]) w'"
        using op Inl by (simp add: retry_loop_retry)
      then show ?thesis by (simp add: retry_loop_calls_mono)
    qed
  qed
qed

lemma retry_loop_sleeps_prefix:
  "take (length ds) (sleeps (retry_loop operation maxRetries baseDelay random attempt n ds w)) = ds"
proof (induction operation maxRetries baseDelay random attempt n ds w rule: retry_loop.induct)
  case (1 operation maxRetries baseDelay random attempt n ds w)
  show ?case
  proof (cases "int attempt \<le> maxRetries")
    case False
    then show ?thesis by (simp add: retry_loop_past)
  next
    case True
    obtain x w' where op: "operation w = (x, w')" by (cases "operation w")
    show ?thesis
    proof (cases x)
      case (Inr v)
      with True op show ?thesis by (simp add: retry_loop_success)
    next
      case (Inl e)
      show ?thesis
      proof (cases "isRetryableError e \<and> int attempt < maxRetries")
        case False
        with True op Inl show ?thesis by (auto simp: retry_loop_fatal retry_loop_last)
      next
        case retry: True
        let ?d = "baseDelay * 2 ^ attempt + random attempt * 1000"
        let ?rest = "retry_loop operation maxRetries baseDelay random (Suc attempt) (Suc n)
              (ds @ [?d]) w'"
        have step: "retry_loop operation maxRetries baseDelay random attempt n ds w = ?rest"
          using retry op Inl by (simp add: retry_loop_retry backoff_delay_def)
        from "1.IH" [OF True op [symmetric] Inl retry]
        have "take (Suc (length ds)) (sleeps ?rest) = ds @ [?d]" by simp
        then have "take (length ds) (take (Suc (length ds)) (sleeps ?rest)) = take (length ds) (ds @ [?d])"
          by (rule arg_cong)
        then have "take (length ds) (sleeps ?rest) = ds"
          by (simp add: min_def)
        then show ?thesis unfolding step .
      qed
    qed
  qed
qed

text \<open>
  A failure with status 429 or 402 is retried while a retry is left: when the calls up
  to iteration \<open>k\<close> all fail so and \<open>k < maxRetries\<close>, the invoker has slept the
  backoff delay after each of them and called the operation once more.
\<close>

lemma retry_transient_retried:
  assumes "int k < maxRetries"
    and "\<forall>j \<le> k. \<exists>e. attempt_outcome operation j w = Inl e \<and> isRetryableError e"
  shows "Suc (Suc k) \<le> calls (retryWithBackoff operation maxRetries baseDelay random w)
   \<and> take (Suc k) (sleeps (retryWithBackoff operation maxRetries baseDelay random w))
       = map (backoff_delay baseDelay random) [0 ..< Suc k]"
proof -
  let ?ds = "map (backoff_delay baseDelay random) [0 ..< Suc k]"
  let ?rest = "retry_loop operation maxRetries baseDelay random (Suc k) (Suc k) ?ds
                 (world_after operation (Suc k) w)"
  have bound: "int (0 + Suc k) \<le> maxRetries" using assms(1) by simp
  have early: "\<forall>j < Suc k. \<exists>e. attempt_outcome operation j w = Inl e \<and> isRetryableError e"
    using assms(2) by (simp add: less_Suc_eq_le)
  have "retry_loop operation maxRetries baseDelay random 0 0 [] w
      = retry_loop operation maxRetries baseDelay random (0 + Suc k) (0 + Suc k)
          ([] @ map (backoff_delay baseDelay random) [0 ..< 0 + Suc k])
          (world_after operation (Suc k) w)"
    using bound early by (rule retry_loop_skip)
  then have eq: "retryWithBackoff operation maxRetries baseDelay random w = ?rest"
    by (simp add: retryWithBackoff_def)
  have le: "int (Suc k) \<le> maxRetries" using assms(1) by simp
  have c: "Suc (Suc k) \<le> calls ?rest"
    using le by (rule retry_loop_calls_next)
  have "take (length ?ds) (sleeps ?rest) = ?ds"
    by (rule retry_loop_sleeps_prefix)
  then have d: "take (Suc k) (sleeps ?rest) = ?ds"
    by simp
  from c d show ?thesis unfolding eq by (rule conjI)
qed

text \<open>
  Claim C2. A failure is classified as retryable exactly when it carries the HTTP status
  429 or 402. A failure with one of these two statuses is retried while a retry is left:
  when the calls up to iteration \<open>k\<close> all fail with 429 or 402 and \<open>k < maxRetries\<close>,
  the invoker sleeps the backoff delay after each of them and calls the operation
  again. When the first call of the operation fails with any other status, or with no
  status at all, the invoker returns that failure after this one call, having slept no
  delay. And whenever the invoker called the operation again after some call, that call
  had failed with status 429 or 402.
\<close>

theorem retry_only_transient:
  "(isRetryableError e \<longleftrightarrow> response_status e = Some 429 \<or> response_status e = Some 402)
   \<and> (0 \<le> maxRetries \<and> operation w = (Inl e, w')
        \<and> response_status e \<noteq> Some 429 \<and> response_status e \<noteq> Some 402 \<longrightarrow>
      retryWithBackoff operation maxRetries baseDelay random w
        = \<lparr>outcome = Inl e, calls = 1, sleeps = [], world = w'\<rparr>)
   \<and> (\<forall>k. Suc k < calls (retryWithBackoff operation maxRetries baseDelay random w) \<longrightarrow>
        (\<exists>e'. attempt_outcome operation k w = Inl e'
           \<and> (response_status e' = Some 429 \<or> response_status e' = Some 402)))
   \<and> (\<forall>k. int k < maxRetries
          \<and> (\<forall>j \<le> k. \<exists>e'. attempt_outcome operation j w = Inl e'
                 \<and> (response_status e' = Some 429 \<or> response_status e' = Some 402)) \<longrightarrow>
        Suc (Suc k) \<le> calls (retryWithBackoff operation maxRetries baseDelay random w)
        \<and> take (Suc k) (sleeps (retryWithBackoff operation maxRetries baseDelay random w))
            = map (\<lambda>i. baseDelay * 2 ^ i + random i * 1000) [0 ..< Suc k])"
proof (intro conjI impI allI)
  show "isRetryableError e \<longleftrightarrow> response_status e = Some 429 \<or> response_status e = Some 402"
    by (simp add: isRetryableError_def)
next
  assume a: "0 \<le> maxRetries \<and> operation w = (Inl e, w')
        \<and> response_status e \<noteq> Some 429 \<and> response_status e \<noteq> Some 402"
  then have "\<not> isRetryableError e" by (simp add: isRetryableError_def)
  with a show "retryWithBackoff operation maxRetries baseDelay random w
        = \<lparr>outcome = Inl e, calls = 1, sleeps = [], world = w'\<rparr>"
    by (simp add: retryWithBackoff_def retry_loop_fatal)
next
  fix k
  assume "Suc k < calls (retryWithBackoff operation maxRetries baseDelay random w)"
  then have "0 + Suc k < calls (retry_loop operation maxRetries baseDelay random 0 0 [] w)"
    by (simp add: retryWithBackoff_def)
  then have "\<exists>e'. attempt_outcome operation k w = Inl e' \<and> isRetryableError e'"
    by (rule retry_loop_only_transient)
  then show "\<exists>e'. attempt_outcome operation k w = Inl e'
           \<and> (response_status e' = Some 429 \<or> response_status e' = Some 402)"
    by (simp add: isRetryableError_def)
next
  fix k
  assume a: "int k < maxRetries
          \<and> (\<forall>j \<le> k. \<exists>e'. attempt_outcome operation j w = Inl e'
                 \<and> (response_status e' = Some 429 \<or> response_status e' = Some 402))"
  then have lt: "int k < maxRetries"
    and tr: "\<forall>j \<le> k. \<exists>e. attempt_outcome operation j w = Inl e \<and> isRetryableError e"
    by (simp_all add: isRetryableError_def)
  have delay: "backoff_delay baseDelay random = (\<lambda>i. baseDelay * 2 ^ i + random i * 1000)"
    by (rule ext) (simp add: backoff_delay_def)
  from retry_transient_retried [OF lt tr, of baseDelay random]
  show "Suc (Suc k) \<le> calls (retryWithBackoff operation maxRetries baseDelay random w)"
    and "take (Suc k) (sleeps (retryWithBackoff operation maxRetries baseDelay random w))
            = map (\<lambda>i. baseDelay * 2 ^ i + random i * 1000) [0 ..< Suc k]"
    by (simp_all add: delay)
qed

theorem retry_only_transient_witness:
  "retryWithBackoff
      (\<lambda>u::unit. (Inl \<lparr>is_Error = True, error_message = ''Request failed with status code 500'',
                       response_status = Some 500\<rparr> :: thrown + string, u))
      3 1000 (\<lambda>k. 0) ()
     = \<lparr>outcome = Inl \<lparr>is_Error = True, error_message = ''Request failed with status code 500'',
                        response_status = Some 500\<rparr>,
        calls = 1, sleeps = [], world = ()\<rparr>
   \<and> retryWithBackoff
      (\<lambda>u::unit. (Inl \<lparr>is_Error = True, error_message = ''Network Error'',
                       response_status = None\<rparr> :: thrown + string, u))
      3 1000 (\<lambda>k. 0) ()
     = \<lparr>outcome = Inl \<lparr>is_Error = True, error_message = ''Network Error'',
                        response_status = None\<rparr>,
        calls = 1, sleeps = [], world = ()\<rparr>
   \<and> (\<exists>e'. attempt_outcome
          (\<lambda>k::nat. (Inl \<lparr>is_Error = True, error_message = ''failed'',
                          response_status = Some (if k = 0 then 402 else 500)\<rparr> :: thrown + string,
                      Suc k)) 0 0 = Inl e'
        \<and> (response_status e' = Some 429 \<or> response_status e' = Some 402))
   \<and> 2 \<le> calls (retryWithBackoff
          (\<lambda>k::nat. (Inl \<lparr>is_Error = True, error_message = ''failed'',
                          response_status = Some (if k = 0 then 402 else 500)\<rparr> :: thrown + string,
                      Suc k)) 3 1000 (\<lambda>k. 1 / 4) 0)
   \<and> take 1 (sleeps (retryWithBackoff
          (\<lambda>k::nat. (Inl \<lparr>is_Error = True, error_message = ''failed'',
                          response_status = Some (if k = 0 then 402 else 500)\<rparr> :: thrown + string,
                      Suc k)) 3 1000 (\<lambda>k. 1 / 4) 0)) = [1250]"
proof -
  let ?e500 = "\<lparr>is_Error = True, error_message = ''Request failed with status code 500'',
                response_status = Some 500\<rparr>"
  let ?enet = "\<lparr>is_Error = True, error_message = ''Network Error'', response_status = None\<rparr>"
  let ?op = "\<lambda>k::nat. (Inl \<lparr>is_Error = True, error_message = ''failed'',
                          response_status = Some (if k = 0 then 402 else 500)\<rparr> :: thrown + string,
                      Suc k)"
  have 1: "retryWithBackoff (\<lambda>u::unit. (Inl ?e500 :: thrown + string, u)) 3 1000 (\<lambda>k. 0) ()
      = \<lparr>outcome = Inl ?e500, calls = 1, sleeps = [], world = ()\<rparr>"
    using retry_only_transient
      [of ?e500 3 "\<lambda>u::unit. (Inl ?e500 :: thrown + string, u)" "()" "()" 1000 "\<lambda>k. 0"]
    by simp
  have 2: "retryWithBackoff (\<lambda>u::unit. (Inl ?enet :: thrown + string, u)) 3 1000 (\<lambda>k. 0) ()
      = \<lparr>outcome = Inl ?enet, calls = 1, sleeps = [], world = ()\<rparr>"
    using retry_only_transient
      [of ?enet 3 "\<lambda>u::unit. (Inl ?enet :: thrown + string, u)" "()" "()" 1000 "\<lambda>k. 0"]
    by simp
  have first: "\<forall>j \<le> 0. \<exists>e'. attempt_outcome ?op j 0 = Inl e'
        \<and> (response_status e' = Some 429 \<or> response_status e' = Some 402)"
    by (simp add: attempt_outcome_def)
  have left: "int 0 < 3" by simp
  from retry_only_transient [of ?e500 3 ?op 0 0 1000 "\<lambda>k. 1 / 4"]
  have "\<forall>k. int k < 3
          \<and> (\<forall>j \<le> k. \<exists>e'. attempt_outcome ?op j 0 = Inl e'
                 \<and> (response_status e' = Some 429 \<or> response_status e' = Some 402)) \<longrightarrow>
        Suc (Suc k) \<le> calls (retryWithBackoff ?op 3 1000 (\<lambda>k. 1 / 4) 0)
        \<and> take (Suc k) (sleeps (retryWithBackoff ?op 3 1000 (\<lambda>k. 1 / 4) 0))
            = map (\<lambda>i. 1000 * 2 ^ i + 1 / 4 * 1000) [0 ..< Suc k]"
    by (elim conjE)
  with left first have retried:
    "Suc (Suc 0) \<le> calls (retryWithBackoff ?op 3 1000 (\<lambda>k. 1 / 4) 0)
     \<and> take (Suc 0) (sleeps (retryWithBackoff ?op 3 1000 (\<lambda>k. 1 / 4) 0))
         = map (\<lambda>i. 1000 * 2 ^ i + 1 / 4 * 1000) [0 ..< Suc 0]"
    by blast
  then have 4: "2 \<le> calls (retryWithBackoff ?op 3 1000 (\<lambda>k. 1 / 4) 0)"
    and 5: "take 1 (sleeps (retryWithBackoff ?op 3 1000 (\<lambda>k. 1 / 4) 0)) = [1250]"
    by simp_all
  have twice: "Suc 0 < calls (retryWithBackoff ?op 3 1000 (\<lambda>k. 0) 0)"
    by (simp add: retryWithBackoff_def retry_loop.simps isRetryableError_def)
  have 3: "\<exists>e'. attempt_outcome ?op 0 0 = Inl e'
        \<and> (response_status e' = Some 429 \<or> response_status e' = Some 402)"
    using retry_only_transient [of ?e500 3 ?op 0 0 1000 "\<lambda>k. 0"] twice
    by blast
  from 1 2 3 4 5 show ?thesis by (intro conjI)
qed

text \<open>
  Claim C3. When every call of the operation fails with status 429, the invoker with a
  retry count \<open>maxRetries\<close> (not negative) calls it exactly \<open>maxRetries + 1\<close>
  times and returns the failure of the last of these calls, which carries status 429;
  it sleeps once after each call but the last.
\<close>

theorem retry_exhausted:
  assumes "0 \<le> maxRetries"
    and "\<forall>k \<le> nat maxRetries. \<exists>e. attempt_outcome operation k w = Inl e \<and> response_status e = Some 429"
  shows "calls (retryWithBackoff operation maxRetries baseDelay random w) = nat maxRetries + 1
   \<and> outcome (retryWithBackoff operation maxRetries baseDelay random w)
       = attempt_outcome operation (nat maxRetries) w
   \<and> (\<exists>e. outcome (retryWithBackoff operation maxRetries baseDelay random w) = Inl e
          \<and> response_status e = Some 429)
   \<and> sleeps (retryWithBackoff operation maxRetries baseDelay random w)
       = map (backoff_delay baseDelay random) [0 ..< nat maxRetries]"
proof -
  let ?m = "nat maxRetries"
  have early: "\<forall>j < ?m. \<exists>e. attempt_outcome operation j w = Inl e \<and> isRetryableError e"
    using assms(2) by (auto simp: isRetryableError_def dest: less_imp_le)
  from assms(2) obtain e where
    e: "attempt_outcome operation ?m w = Inl e" "response_status e = Some 429" by blast
  then obtain w' where w': "operation (world_after operation ?m w) = (Inl e, w')"
    by (cases "operation (world_after operation ?m w)") (simp add: attempt_outcome_def)
  have "retryWithBackoff operation maxRetries baseDelay random w
      = retry_loop operation maxRetries baseDelay random (0 + ?m) (0 + ?m)
          ([] @ map (backoff_delay baseDelay random) [0 ..< 0 + ?m]) (world_after operation ?m w)"
    unfolding retryWithBackoff_def using assms(1) early by (intro retry_loop_skip) simp_all
  also have "\<dots> = \<lparr>outcome = Inl e, calls = Suc ?m,
        sleeps = map (backoff_delay baseDelay random) [0 ..< ?m], world = w'\<rparr>"
    using assms(1) w' by (simp add: retry_loop_last)
  finally show ?thesis using e by simp
qed

theorem retry_exhausted_witness:
  "calls (retryWithBackoff
      (\<lambda>k::nat. (Inl \<lparr>is_Error = True, error_message = replicate (Suc k) (CHR ''x''),
                      response_status = Some 429\<rparr> :: thrown + string, Suc k))
      2 1000 (\<lambda>k. 0) 0) = 3
   \<and> outcome (retryWithBackoff
      (\<lambda>k::nat. (Inl \<lparr>is_Error = True, error_message = replicate (Suc k) (CHR ''x''),
                      response_status = Some 429\<rparr> :: thrown + string, Suc k))
      2 1000 (\<lambda>k. 0) 0)
     = Inl \<lparr>is_Error = True, error_message = ''xxx'', response_status = Some 429\<rparr>"
proof -
  let ?op = "\<lambda>k::nat. (Inl \<lparr>is_Error = True, error_message = replicate (Suc k) (CHR ''x''),
                      response_status = Some 429\<rparr> :: thrown + string, Suc k)"
  have wa: "world_after ?op k u = u + k" for k u
    by (induction k arbitrary: u) simp_all
  have hyp: "\<forall>k \<le> nat 2. \<exists>e. attempt_outcome ?op k 0 = Inl e \<and> response_status e = Some 429"
    by (simp add: attempt_outcome_def wa)
  have final: "attempt_outcome ?op (nat 2) 0
      = Inl \<lparr>is_Error = True, error_message = ''xxx'', response_status = Some 429\<rparr>"
    by (simp add: attempt_outcome_def numeral_2_eq_2)
  have le: "(0::int) \<le> 2" by simp
  note th = retry_exhausted [of 2 ?op 0 1000 "\<lambda>k. 0", OF le hyp]
  from th have c: "calls (retryWithBackoff ?op 2 1000 (\<lambda>k. 0) 0) = nat 2 + 1"
    by (rule conjunct1)
  from th have "outcome (retryWithBackoff ?op 2 1000 (\<lambda>k. 0) 0) = attempt_outcome ?op (nat 2) 0"
    by (elim conjE)
  then have o: "outcome (retryWithBackoff ?op 2 1000 (\<lambda>k. 0) 0)
      = Inl \<lparr>is_Error = True, error_message = ''xxx'', response_status = Some 429\<rparr>"
    by (simp only: final)
  from c have c': "calls (retryWithBackoff ?op 2 1000 (\<lambda>k. 0) 0) = 3" by simp
  from c' o show ?thesis by (rule conjI)
qed

text \<open>
  Claim C7. With \<open>maxRetries = 3\<close>, for an operation whose first two calls fail with
  status 429 and whose third call succeeds, the invoker returns the result of the third
  call, having called the operation exactly 3 times and slept twice.
\<close>

theorem retry_succeeds_on_third:
  assumes "operation w0 = (Inl e0, w1)" and "response_status e0 = Some 429"
    and "operation w1 = (Inl e1, w2)" and "response_status e1 = Some 429"
    and "operation w2 = (Inr v, w3)"
  shows "retryWithBackoff operation 3 baseDelay random w0
     = \<lparr>outcome = Inr v, calls = 3,
        sleeps = [baseDelay * 2 ^ 0 + random 0 * 1000, baseDelay * 2 ^ 1 + random 1 * 1000],
        world = w3\<rparr>"
proof -
  have r0: "isRetryableError e0" and r1: "isRetryableError e1"
    using assms(2,4) by (simp_all add: isRetryableError_def)
  have "retryWithBackoff operation 3 baseDelay random w0
      = retry_loop operation 3 baseDelay random (Suc 0) (Suc 0)
          ([] @ [backoff_delay baseDelay random 0]) w1"
    unfolding retryWithBackoff_def using _ assms(1) r0 by (rule retry_loop_retry) simp
  also have "\<dots> = retry_loop operation 3 baseDelay random (Suc (Suc 0)) (Suc (Suc 0))
          (([] @ [backoff_delay baseDelay random 0]) @ [backoff_delay baseDelay random (Suc 0)]) w2"
    using _ assms(3) r1 by (rule retry_loop_retry) simp
  also have "\<dots> = \<lparr>outcome = Inr v, calls = Suc (Suc (Suc 0)),
        sleeps = ([] @ [backoff_delay baseDelay random 0]) @ [backoff_delay baseDelay random (Suc 0)],
        world = w3\<rparr>"
    using _ assms(5) by (rule retry_loop_success) simp
  finally show ?thesis by (simp add: backoff_delay_def numeral_3_eq_3)
qed

theorem retry_succeeds_on_third_witness:
  "retryWithBackoff
      (\<lambda>k::nat. (if k < 2
                  then Inl \<lparr>is_Error = True, error_message = ''Request failed with status code 429'',
                            response_status = Some 429\<rparr>
                  else Inr ''done'', Suc k))
      3 1000 (\<lambda>k. 1 / 2) 0
     = \<lparr>outcome = Inr ''done'', calls = 3, sleeps = [1500, 2500], world = 3\<rparr>"
proof -
  let ?e = "\<lparr>is_Error = True, error_message = ''Request failed with status code 429'',
             response_status = Some 429\<rparr>"
  let ?op = "\<lambda>k::nat. (if k < 2 then Inl ?e else Inr ''done'', Suc k)"
  have a0: "?op 0 = (Inl ?e, 1)" by simp
  have a1: "?op 1 = (Inl ?e, 2)" by simp
  have a2: "?op 2 = (Inr ''done'', 3)" by simp
  have s: "response_status ?e = Some 429" by simp
  show ?thesis
    using retry_succeeds_on_third [of ?op 0 ?e 1 ?e 2 "''done''" 3 1000 "\<lambda>k. 1 / 2", OF a0 s a1 s a2]
    by simp
qed

section \<open>Properties of the single-model chat\<close>

text \<open>
  Claim C6, as amended. With no system prompt the conversation sent to the remote
  service is exactly one turn, the user turn carrying the message text; with a system
  prompt that is not the empty string it is exactly two turns, the system turn carrying
  the prompt and then the user turn.
\<close>

theorem chat_messages_turns:
  "(chat_system_prompt params = None \<longrightarrow>
      body_messages (chatWithModel_body params)
        = [\<lparr>turn_role = ''user'', turn_content = chat_message params\<rparr>])
   \<and> (chat_system_prompt params = Some p \<and> p \<noteq> [] \<longrightarrow>
      body_messages (chatWithModel_body params)
        = [\<lparr>turn_role = ''system'', turn_content = p\<rparr>,
           \<lparr>turn_role = ''user'', turn_content = chat_message params\<rparr>])"
  by (simp add: chatWithModel_body_def chatWithModel_messages_def truthy_def)

theorem chat_messages_turns_witness:
  "body_messages (chatWithModel_body
      \<lparr>chat_model = ''demo/echo'', chat_message = ''hi'', chat_max_tokens = 1000,
       chat_temperature = 7 / 10, chat_system_prompt = None\<rparr>)
     = [\<lparr>turn_role = ''user'', turn_content = ''hi''\<rparr>]
   \<and> body_messages (chatWithModel_body
      \<lparr>chat_model = ''demo/echo'', chat_message = ''hi'', chat_max_tokens = 1000,
       chat_temperature = 7 / 10, chat_system_prompt = Some ''Be brief.''\<rparr>)
     = [\<lparr>turn_role = ''system'', turn_content = ''Be brief.''\<rparr>,
        \<lparr>turn_role = ''user'', turn_content = ''hi''\<rparr>]"
  using
    chat_messages_turns
      [of "\<lparr>chat_model = ''demo/echo'', chat_message = ''hi'', chat_max_tokens = 1000,
            chat_temperature = 7 / 10, chat_system_prompt = None\<rparr>" "[]"]
    chat_messages_turns
      [of "\<lparr>chat_model = ''demo/echo'', chat_message = ''hi'', chat_max_tokens = 1000,
            chat_temperature = 7 / 10, chat_system_prompt = Some ''Be brief.''\<rparr>" "''Be brief.''"]
  by simp

text \<open>
  Claim C6 as it is written fails: a call that supplies the empty string as system
  prompt passes the schema, and the conversation built for it has one turn, not two.
\<close>

theorem chat_messages_supplied_counterexample:
  "ChatRequestSchema (JObject [(''model'', JString ''demo/echo''), (''message'', JString ''hi''),
                               (''system_prompt'', JString [])])
     = Inr \<lparr>chat_model = ''demo/echo'', chat_message = ''hi'', chat_max_tokens = 1000,
            chat_temperature = 7 / 10, chat_system_prompt = Some []\<rparr>
   \<and> body_messages (chatWithModel_body
        \<lparr>chat_model = ''demo/echo'', chat_message = ''hi'', chat_max_tokens = 1000,
         chat_temperature = 7 / 10, chat_system_prompt = Some []\<rparr>)
     = [\<lparr>turn_role = ''user'', turn_content = ''hi''\<rparr>]
   \<and> length (body_messages (chatWithModel_body
        \<lparr>chat_model = ''demo/echo'', chat_message = ''hi'', chat_max_tokens = 1000,
         chat_temperature = 7 / 10, chat_system_prompt = Some []\<rparr>)) \<noteq> 2"
  by (simp add: ChatRequestSchema_def z_string_def z_number_default_def z_string_optional_def
        chatWithModel_body_def chatWithModel_messages_def truthy_def)

text \<open>
  Claim C9. When the system prompt of a call is the empty string, the conversation sent
  to the remote service is the single user turn: there is no system turn.
\<close>

theorem chat_empty_system_prompt:
  "chat_system_prompt params = Some [] \<Longrightarrow>
   body_messages (chatWithModel_body params)
     = [\<lparr>turn_role = ''user'', turn_content = chat_message params\<rparr>]
   \<and> (\<forall>t \<in> set (body_messages (chatWithModel_body params)). turn_role t \<noteq> ''system'')"
  by (simp add: chatWithModel_body_def chatWithModel_messages_def truthy_def)

theorem chat_empty_system_prompt_witness:
  "body_messages (chatWithModel_body
      \<lparr>chat_model = ''demo/echo'', chat_message = ''hello'', chat_max_tokens = 1000,
       chat_temperature = 7 / 10, chat_system_prompt = Some []\<rparr>)
     = [\<lparr>turn_role = ''user'', turn_content = ''hello''\<rparr>]"
  using chat_empty_system_prompt
      [of "\<lparr>chat_model = ''demo/echo'', chat_message = ''hello'', chat_max_tokens = 1000,
            chat_temperature = 7 / 10, chat_system_prompt = Some []\<rparr>"]
  by simp

section \<open>Properties of the multi-model comparison\<close>

lemma those_map_Some: "those (map Some xs) = Some xs"
  by (induction xs) simp_all

lemma length_fold_settle: "length (fold (settle values) order slots) = length slots"
  by (induction order arbitrary: slots) (simp_all add: settle_def)

lemma nth_fold_settle:
  "length slots = length values \<Longrightarrow> j < length values \<Longrightarrow>
   fold (settle values) order slots ! j
     = (if j \<in> set order then Some (values ! j) else slots ! j)"
proof (induction order arbitrary: slots)
  case Nil
  then show ?case by simp
next
  case (Cons i order)
  have len: "length (settle values i slots) = length values"
    using Cons.prems(1) by (simp add: settle_def)
  have "fold (settle values) (i # order) slots ! j
      = fold (settle values) order (settle values i slots) ! j"
    by simp
  also have "\<dots> = (if j \<in> set order then Some (values ! j) else settle values i slots ! j)"
    using len Cons.prems(2) by (rule Cons.IH)
  also have "\<dots> = (if j \<in> set (i # order) then Some (values ! j) else slots ! j)"
    using Cons.prems by (auto simp: settle_def nth_list_update)
  finally show ?case .
qed

text \<open>
  Once every promise has settled, in whatever order, \<^verbatim>\<open>Promise.all\<close> gives the
  values by position.
\<close>

lemma Promise_all_settled:
  assumes "set order = {0 ..< length values}"
  shows "Promise_all order values = Some values"
proof -
  have "fold (settle values) order (replicate (length values) None) = map Some values"
    using assms by (intro nth_equalityI) (simp_all add: length_fold_settle nth_fold_settle)
  then show ?thesis by (simp add: Promise_all_def those_map_Some)
qed

text \<open>
  The results of a comparison are one entry for each position of the list of models, in
  the order of the list, each computed from the invocation of its own position only.
\<close>

lemma compareModels_results_in_order:
  assumes "set order = {0 ..< length (cmp_models params)}"
  shows "compareModels_results order post random worlds params
     = Some (map (\<lambda>(i, model_id).
                    compareModels_entry model_id
                      (outcome (compareModels_invocation post random worlds params i model_id)))
                 (enumerate 0 (cmp_models params)))"
  unfolding compareModels_results_def using assms by (intro Promise_all_settled) simp

lemma compareModels_results_models:
  assumes "compareModels_results order post random worlds params = Some results"
    and "set order = {0 ..< length (cmp_models params)}"
  shows "map result_model results = cmp_models params"
proof -
  define entries where
    "entries = map (\<lambda>(i, model_id).
                      compareModels_entry model_id
                        (outcome (compareModels_invocation post random worlds params i model_id)))
                   (enumerate 0 (cmp_models params))"
  have entry: "result_model (compareModels_entry model_id settled) = model_id" for model_id settled
    by (simp add: compareModels_entry_def Let_def split: sum.splits)
  have "map result_model entries = map snd (enumerate 0 (cmp_models params))"
    unfolding entries_def by (simp add: entry case_prod_unfold comp_def)
  then have models: "map result_model entries = cmp_models params"
    by simp
  have "compareModels_results order post random worlds params = Some entries"
    unfolding entries_def using assms(2) by (rule compareModels_results_in_order)
  with assms(1) have "results = entries"
    by simp
  with models show ?thesis
    by simp
qed

text \<open>
  The normaliser never returns the empty string as reasoning, so an entry of a
  comparison never carries it.
\<close>

lemma extract_reasoning_nonempty: "reply_reasoning (extractMessageContent m) \<noteq> Some []"
  by (simp add: extractMessageContent_def Let_def truthy_def split: option.splits)

lemma entry_reasoning_nonempty:
  "compareModels_entry model_id settled = Succeeded m response (Some r) u \<Longrightarrow> r \<noteq> []"
  using extract_reasoning_nonempty
  by (auto simp: compareModels_entry_def Let_def split: sum.splits)

text \<open>
  Claim C1. For the models A, B, C in this order, when the invocation for B ends in an
  exception (an \<^verbatim>\<open>Error\<close>, as every rejection of the HTTP client is) and the
  invocations for A and C each return a completion with a first message, then in
  whatever order the three calls complete the results are exactly three entries, for A,
  B and C in this order: the entry of B is the failure carrying the message of its
  exception, and the entries of A and C are successes carrying the normalised content
  and reasoning of their own first message.
\<close>

theorem compare_isolates_failure:
  assumes "cmp_models params = [A, B, C]"
    and "set order = {0, 1, 2}"
    and "outcome (compareModels_invocation post random worlds params 0 A) = Inr ra"
    and "first_message ra = Inr ma"
    and "outcome (compareModels_invocation post random worlds params 1 B) = Inl e"
    and "is_Error e"
    and "outcome (compareModels_invocation post random worlds params 2 C) = Inr rc"
    and "first_message rc = Inr mc"
  shows "compareModels_results order post random worlds params
     = Some [Succeeded A (reply_content (extractMessageContent ma))
                         (reply_reasoning (extractMessageContent ma)) (usage ra),
             Failed B (error_message e),
             Succeeded C (reply_content (extractMessageContent mc))
                         (reply_reasoning (extractMessageContent mc)) (usage rc)]"
proof -
  have "{0 ..< length (cmp_models params)} = {0, 1, 2::nat}"
    using assms(1) by auto
  with assms(2) have "set order = {0 ..< length (cmp_models params)}"
    by simp
  then have "compareModels_results order post random worlds params
     = Some (map (\<lambda>(i, model_id).
                    compareModels_entry model_id
                      (outcome (compareModels_invocation post random worlds params i model_id)))
                 (enumerate 0 (cmp_models params)))"
    by (rule compareModels_results_in_order)
  also have "enumerate 0 (cmp_models params) = [(0, A), (Suc 0, B), (Suc (Suc 0), C)]"
    using assms(1) by simp
  finally show ?thesis
    using assms(3-8)
    by (simp add: compareModels_entry_def error_text_def Let_def numeral_2_eq_2)
qed


theorem compare_isolates_failure_witness:
  "compareModels_results [2, 0, 1]
      (\<lambda>body (k::nat).
         (if body_model body = ''b''
          then Inl \<lparr>is_Error = True, error_message = ''Request failed with status code 429'',
                    response_status = Some 429\<rparr>
          else Inr \<lparr>choices = [\<lparr>role = ''assistant'', content = PlainText (body_model body),
                                 reasoning_content = None\<rparr>],
                    usage = Some \<lparr>prompt_tokens = 1, completion_tokens = 1, total_tokens = 2\<rparr>\<rparr>,
          Suc k))
      (\<lambda>i k. 0) (\<lambda>i. 0)
      \<lparr>cmp_models = [''a'', ''b'', ''c''], cmp_message = ''hi'', cmp_max_tokens = 500\<rparr>
     = Some [Succeeded ''a'' (Some ''a'') None
               (Some \<lparr>prompt_tokens = 1, completion_tokens = 1, total_tokens = 2\<rparr>),
             Failed ''b'' ''Request failed with status code 429'',
             Succeeded ''c'' (Some ''c'') None
               (Some \<lparr>prompt_tokens = 1, completion_tokens = 1, total_tokens = 2\<rparr>)]"
proof -
  let ?e = "\<lparr>is_Error = True, error_message = ''Request failed with status code 429'',
             response_status = Some 429\<rparr>"
  let ?u = "Some \<lparr>prompt_tokens = 1, completion_tokens = 1, total_tokens = 2\<rparr>"
  let ?m = "\<lambda>t. \<lparr>role = ''assistant'', content = PlainText t, reasoning_content = None\<rparr>"
  let ?r = "\<lambda>t. \<lparr>choices = [?m t], usage = ?u\<rparr>"
  let ?post = "\<lambda>body (k::nat).
         (if body_model body = ''b'' then Inl ?e else Inr (?r (body_model body)), Suc k)"
  let ?params = "\<lparr>cmp_models = [''a'', ''b'', ''c''], cmp_message = ''hi'', cmp_max_tokens = 500\<rparr>"
  let ?inv = "compareModels_invocation ?post (\<lambda>i k. 0) (\<lambda>i. 0) ?params"
  have models: "cmp_models ?params = [''a'', ''b'', ''c'']" by simp
  have order: "set [2, 0, 1] = {0, 1, 2::nat}" by auto
  have a: "outcome (?inv 0 ''a'') = Inr (?r ''a'')"
    by (simp add: compareModels_invocation_def compareModels_body_def retryWithBackoff_def
          retry_loop.simps)
  have b: "outcome (?inv 1 ''b'') = Inl ?e"
    by (simp add: compareModels_invocation_def compareModels_body_def retryWithBackoff_def
          retry_loop.simps isRetryableError_def)
  have c: "outcome (?inv 2 ''c'') = Inr (?r ''c'')"
    by (simp add: compareModels_invocation_def compareModels_body_def retryWithBackoff_def
          retry_loop.simps)
  have fa: "first_message (?r ''a'') = Inr (?m ''a'')" by (simp add: first_message_def)
  have fc: "first_message (?r ''c'') = Inr (?m ''c'')" by (simp add: first_message_def)
  have err: "is_Error ?e" by simp
  show ?thesis
    using compare_isolates_failure [OF models order a fa b err c fc]
    by (simp add: extractMessageContent_def Let_def truthy_def)
qed

text \<open>
  Claim C5. In the block rendered for a successful result that carries a reasoning text
  and usage counters, a reasoning text of more than 200 characters is rendered as its
  first 200 characters followed by three dots, and a reasoning text of at most 200
  characters is rendered as it is.
\<close>

theorem format_reasoning_truncated:
  "(200 < length r \<longrightarrow>
      formatResult (Succeeded model_id response (Some r) (Some u))
        = Inr (''**'' @ model_id @ '':**'' @ nl
               @ ''*Reasoning:* '' @ take 200 r @ ''...'' @ nl @ nl
               @ nullish response ''(no content)'' @ nl
               @ ''*Tokens: '' @ show_nat (total_tokens u) @ ''*''))
   \<and> (r \<noteq> [] \<and> length r \<le> 200 \<longrightarrow>
      formatResult (Succeeded model_id response (Some r) (Some u))
        = Inr (''**'' @ model_id @ '':**'' @ nl
               @ ''*Reasoning:* '' @ r @ nl @ nl
               @ nullish response ''(no content)'' @ nl
               @ ''*Tokens: '' @ show_nat (total_tokens u) @ ''*''))"
proof (intro conjI impI)
  assume long: "200 < length r"
  then have "r \<noteq> []" by auto
  with long show "formatResult (Succeeded model_id response (Some r) (Some u))
        = Inr (''**'' @ model_id @ '':**'' @ nl
               @ ''*Reasoning:* '' @ take 200 r @ ''...'' @ nl @ nl
               @ nullish response ''(no content)'' @ nl
               @ ''*Tokens: '' @ show_nat (total_tokens u) @ ''*'')"
    by (simp add: formatResult_def Let_def truthy_def reasoning_preview_def)
next
  assume short: "r \<noteq> [] \<and> length r \<le> 200"
  then show "formatResult (Succeeded model_id response (Some r) (Some u))
        = Inr (''**'' @ model_id @ '':**'' @ nl
               @ ''*Reasoning:* '' @ r @ nl @ nl
               @ nullish response ''(no content)'' @ nl
               @ ''*Tokens: '' @ show_nat (total_tokens u) @ ''*'')"
    by (simp add: formatResult_def Let_def truthy_def reasoning_preview_def)
qed

theorem format_reasoning_truncated_witness:
  "formatResult (Succeeded ''m'' (Some ''ok'') (Some (replicate 201 (CHR ''r'')))
      (Some \<lparr>prompt_tokens = 1, completion_tokens = 2, total_tokens = 3\<rparr>))
     = Inr (''**m:**'' @ nl @ ''*Reasoning:* '' @ replicate 200 (CHR ''r'') @ ''...'' @ nl @ nl
            @ ''ok'' @ nl @ ''*Tokens: 3*'')
   \<and> formatResult (Succeeded ''m'' None (Some ''short'')
      (Some \<lparr>prompt_tokens = 1, completion_tokens = 2, total_tokens = 3\<rparr>))
     = Inr (''**m:**'' @ nl @ ''*Reasoning:* short'' @ nl @ nl
            @ ''(no content)'' @ nl @ ''*Tokens: 3*'')"
proof -
  have three: "show_nat 3 = ''3''"
    by (simp add: show_nat.simps digit_def)
  show ?thesis
    using
      format_reasoning_truncated
        [of "replicate 201 (CHR ''r'')" "''m''" "Some ''ok''"
            "\<lparr>prompt_tokens = 1, completion_tokens = 2, total_tokens = 3\<rparr>"]
      format_reasoning_truncated
        [of "''short''" "''m''" None
            "\<lparr>prompt_tokens = 1, completion_tokens = 2, total_tokens = 3\<rparr>"]
    by (simp add: three nullish_def)
qed

text \<open>
  Claim C10. Arguments whose list of models is empty pass the schema. For an empty list
  of models the comparison makes no remote call, throws nothing and returns the header
  with the count 0 and no block after it.
\<close>

theorem compare_empty_models:
  "CompareModelsSchema (JObject [(''models'', JArray []), (''message'', JString msg)])
     = Inr \<lparr>cmp_models = [], cmp_message = msg, cmp_max_tokens = 500\<rparr>
   \<and> (cmp_models params = [] \<longrightarrow>
        compareModels order post random worlds params
          = Some (Inr (''Comparison of 0 models:'' @ nl @ nl))
        \<and> compareModels_results order post random worlds params = Some []
        \<and> compareModels_calls post random worlds params = 0)"
proof (intro conjI impI)
  show "CompareModelsSchema (JObject [(''models'', JArray []), (''message'', JString msg)])
     = Inr \<lparr>cmp_models = [], cmp_message = msg, cmp_max_tokens = 500\<rparr>"
    by (simp add: CompareModelsSchema_def z_array_string_def z_string_def z_number_default_def)
next
  assume empty: "cmp_models params = []"
  have none: "fold (settle ([] :: ComparisonResult list)) order [] = []"
    by (induction order) (simp_all add: settle_def)
  show results: "compareModels_results order post random worlds params = Some []"
    using empty none by (simp add: compareModels_results_def Promise_all_def)
  show "compareModels order post random worlds params
          = Some (Inr (''Comparison of 0 models:'' @ nl @ nl))"
    using empty results by (simp add: compareModels_def show_nat.simps digit_def)
  show "compareModels_calls post random worlds params = 0"
    using empty by (simp add: compareModels_calls_def)
qed

theorem compare_empty_models_witness:
  "compareModels []
      (\<lambda>body (u::unit). (Inl (Error ''no remote service''), u)) (\<lambda>i k. 0) (\<lambda>i. ())
      \<lparr>cmp_models = [], cmp_message = ''hi'', cmp_max_tokens = 500\<rparr>
     = Some (Inr (''Comparison of 0 models:'' @ nl @ nl))
   \<and> compareModels_calls
      (\<lambda>body (u::unit). (Inl (Error ''no remote service''), u)) (\<lambda>i k. 0) (\<lambda>i. ())
      \<lparr>cmp_models = [], cmp_message = ''hi'', cmp_max_tokens = 500\<rparr> = 0"
  using compare_empty_models
      [of "''hi''" "\<lparr>cmp_models = [], cmp_message = ''hi'', cmp_max_tokens = 500\<rparr>" "[]"
          "\<lambda>body (u::unit). (Inl (Error ''no remote service''), u)" "\<lambda>i k. 0" "\<lambda>i. ()"]
  by simp


end
